theory Spec2Isabelle
  imports Complex_Main
begin

section \<open>Numbers\<close>

text \<open>
  A TypeScript \<open>number\<close> is an IEEE double: a finite value, one of the two infinities
  or \<open>NaN\<close>. A finite value other than zero is \<open>Num r\<close>; \<open>Num 0\<close> is the zero of
  positive sign and \<open>NegZero\<close> the zero of negative sign. The operations \<open>js_add\<close>,
  \<open>js_mul\<close>, ... of this section give the exact result of an operation on its
  arguments, with the sign of a zero result and the special values as IEEE arithmetic
  has them; the rounding of a result to the nearest double is the subject of the next
  section.
\<close>

datatype jsnum = Num real | NegZero | PosInf | NegInf | NaN

fun finite_num :: "jsnum \<Rightarrow> bool" where
  "finite_num (Num r) = True"
| "finite_num NegZero = True"
| "finite_num v = False"

text \<open>The value of a finite number, and the sign bit of a number.\<close>

fun num_val :: "jsnum \<Rightarrow> real" where
  "num_val (Num r) = r"
| "num_val v = 0"

fun negative :: "jsnum \<Rightarrow> bool" where
  "negative (Num r) = (r < 0)"
| "negative NegZero = True"
| "negative NegInf = True"
| "negative v = False"

fun zero_of :: "bool \<Rightarrow> jsnum" where
  "zero_of True = NegZero"
| "zero_of False = Num 0"

fun inf_of :: "bool \<Rightarrow> jsnum" where
  "inf_of True = NegInf"
| "inf_of False = PosInf"

text \<open>The finite number of value \<open>r\<close>; if \<open>r\<close> is zero, the zero of the given sign.\<close>

definition num_of :: "bool \<Rightarrow> real \<Rightarrow> jsnum" where
  "num_of neg r = (if r = 0 then zero_of neg else Num r)"

fun js_neg :: "jsnum \<Rightarrow> jsnum" where
  "js_neg (Num r) = num_of True (- r)"
| "js_neg NegZero = Num 0"
| "js_neg PosInf = NegInf"
| "js_neg NegInf = PosInf"
| "js_neg NaN = NaN"

fun js_add :: "jsnum \<Rightarrow> jsnum \<Rightarrow> jsnum" where
  "js_add NaN b = NaN"
| "js_add a NaN = NaN"
| "js_add PosInf NegInf = NaN"
| "js_add NegInf PosInf = NaN"
| "js_add PosInf b = PosInf"
| "js_add NegInf b = NegInf"
| "js_add a PosInf = PosInf"
| "js_add a NegInf = NegInf"
| "js_add NegZero b = b"
| "js_add a NegZero = a"
| "js_add (Num a) (Num b) = Num (a + b)"

definition js_sub :: "jsnum \<Rightarrow> jsnum \<Rightarrow> jsnum" where
  "js_sub a b = js_add a (js_neg b)"

definition js_mul :: "jsnum \<Rightarrow> jsnum \<Rightarrow> jsnum" where
  "js_mul a b =
     (if a = NaN \<or> b = NaN then NaN
      else if finite_num a \<and> finite_num b
      then num_of (negative a \<noteq> negative b) (num_val a * num_val b)
      else if (finite_num a \<and> num_val a = 0) \<or> (finite_num b \<and> num_val b = 0) then NaN
      else inf_of (negative a \<noteq> negative b))"

definition js_div :: "jsnum \<Rightarrow> jsnum \<Rightarrow> jsnum" where
  "js_div a b =
     (if a = NaN \<or> b = NaN then NaN
      else if \<not> finite_num a \<and> \<not> finite_num b then NaN
      else if \<not> finite_num a then inf_of (negative a \<noteq> negative b)
      else if \<not> finite_num b then zero_of (negative a \<noteq> negative b)
      else if num_val b = 0
      then (if num_val a = 0 then NaN else inf_of (negative a \<noteq> negative b))
      else num_of (negative a \<noteq> negative b) (num_val a / num_val b))"

fun js_lt :: "jsnum \<Rightarrow> jsnum \<Rightarrow> bool" where
  "js_lt NaN b = False"
| "js_lt a NaN = False"
| "js_lt PosInf b = False"
| "js_lt a NegInf = False"
| "js_lt NegInf b = True"
| "js_lt a PosInf = True"
| "js_lt a b = (num_val a < num_val b)"

text \<open>
  \<open>===\<close> on numbers: \<open>NaN\<close> equals nothing, itself included, and the two zeros are
  equal.
\<close>

definition js_eq :: "jsnum \<Rightarrow> jsnum \<Rightarrow> bool" where
  "js_eq a b =
     (a \<noteq> NaN \<and> b \<noteq> NaN \<and>
      (a = b \<or> (finite_num a \<and> finite_num b \<and> num_val a = num_val b)))"

definition js_le :: "jsnum \<Rightarrow> jsnum \<Rightarrow> bool" where
  "js_le a b = (js_lt a b \<or> js_eq a b)"

definition js_gt :: "jsnum \<Rightarrow> jsnum \<Rightarrow> bool" where
  "js_gt a b = js_lt b a"

definition js_ge :: "jsnum \<Rightarrow> jsnum \<Rightarrow> bool" where
  "js_ge a b = js_le b a"

text \<open>
  \<open>Math.min\<close> and \<open>Math.max\<close> of two arguments, and of a spread array. Of the two
  zeros, \<open>Math.min\<close> returns the negative one and \<open>Math.max\<close> the positive one.
\<close>

definition js_min :: "jsnum \<Rightarrow> jsnum \<Rightarrow> jsnum" where
  "js_min a b =
     (if a = NaN \<or> b = NaN then NaN
      else if js_lt b a then b
      else if js_lt a b then a
      else if b = NegZero then b else a)"

definition js_max :: "jsnum \<Rightarrow> jsnum \<Rightarrow> jsnum" where
  "js_max a b =
     (if a = NaN \<or> b = NaN then NaN
      else if js_lt a b then b
      else if js_lt b a then a
      else if a = NegZero then b else a)"

definition js_min_list :: "jsnum list \<Rightarrow> jsnum" where
  "js_min_list ns = foldl js_min PosInf ns"

definition js_max_list :: "jsnum list \<Rightarrow> jsnum" where
  "js_max_list ns = foldl js_max NegInf ns"

fun js_abs :: "jsnum \<Rightarrow> jsnum" where
  "js_abs (Num r) = Num \<bar>r\<bar>"
| "js_abs NegZero = Num 0"
| "js_abs PosInf = PosInf"
| "js_abs NegInf = PosInf"
| "js_abs NaN = NaN"

fun js_sqrt :: "jsnum \<Rightarrow> jsnum" where
  "js_sqrt (Num r) = (if r < 0 then NaN else Num (sqrt r))"
| "js_sqrt NegZero = NegZero"
| "js_sqrt PosInf = PosInf"
| "js_sqrt NegInf = NaN"
| "js_sqrt NaN = NaN"

text \<open>\<open>Math.pow(v, 2)\<close>.\<close>

fun js_pow2 :: "jsnum \<Rightarrow> jsnum" where
  "js_pow2 (Num r) = Num (r * r)"
| "js_pow2 NegZero = Num 0"
| "js_pow2 PosInf = PosInf"
| "js_pow2 NegInf = PosInf"
| "js_pow2 NaN = NaN"

text \<open>\<open>Math.ceil\<close>: a value in \<open>(-1, 0)\<close> goes to the negative zero.\<close>

fun js_ceil :: "jsnum \<Rightarrow> jsnum" where
  "js_ceil (Num r) = num_of (r < 0) (of_int \<lceil>r\<rceil>)"
| "js_ceil v = v"

fun js_acos :: "jsnum \<Rightarrow> jsnum" where
  "js_acos (Num r) = (if - 1 \<le> r \<and> r \<le> 1 then Num (arccos r) else NaN)"
| "js_acos NegZero = Num (arccos 0)"
| "js_acos v = NaN"

fun js_cos :: "jsnum \<Rightarrow> jsnum" where
  "js_cos (Num r) = Num (cos r)"
| "js_cos NegZero = Num 1"
| "js_cos v = NaN"

fun js_sin :: "jsnum \<Rightarrow> jsnum" where
  "js_sin (Num r) = Num (sin r)"
| "js_sin NegZero = NegZero"
| "js_sin v = NaN"

text \<open>Truthiness of a number, and \<open>v || d\<close>.\<close>

definition js_truthy :: "jsnum \<Rightarrow> bool" where
  "js_truthy v = (v \<noteq> NaN \<and> v \<noteq> Num 0 \<and> v \<noteq> NegZero)"

definition js_or :: "jsnum \<Rightarrow> jsnum \<Rightarrow> jsnum" where
  "js_or v d = (if js_truthy v then v else d)"

section \<open>Double arithmetic\<close>

text \<open>
  The engine rounds the exact result of an operation to the nearest double, ties to the
  even significand; a result too large becomes an infinity and a result too small a
  zero of the same sign. For a real \<open>x\<close> other than zero, \<open>binade x\<close> is the exponent of
  its binade (that of the smallest normal numbers below \<open>2 ^ -1022\<close>), \<open>ulp x\<close> the
  distance of two neighbouring doubles there, and \<open>round_double x\<close> the double that
  \<open>x\<close> rounds to.
\<close>

definition binade :: "real \<Rightarrow> int" where
  "binade x = max \<lfloor>log 2 \<bar>x\<bar>\<rfloor> (- 1022)"

definition ulp :: "real \<Rightarrow> real" where
  "ulp x = 2 powr of_int (binade x - 52)"

definition round_half_even :: "real \<Rightarrow> int" where
  "round_half_even y =
     (let f = \<lfloor>y\<rfloor>; d = y - of_int f
      in if d < 1 / 2 then f
         else if 1 / 2 < d then f + 1
         else if even f then f else f + 1)"

text \<open>
  The magnitude of the double nearest to \<open>x\<close>, were the exponent unbounded above; and the
  bound \<open>2 ^ 1024\<close> from which on it is out of range.
\<close>

definition round_magnitude :: "real \<Rightarrow> real" where
  "round_magnitude x = of_int (round_half_even (\<bar>x\<bar> / ulp x)) * ulp x"

definition double_bound :: real where
  "double_bound = 2 ^ 1024"

definition round_double :: "real \<Rightarrow> jsnum" where
  "round_double x =
     (if x = 0 then Num 0
      else if double_bound \<le> round_magnitude x then inf_of (x < 0)
      else num_of (x < 0) (if x < 0 then - round_magnitude x else round_magnitude x))"

text \<open>
  The rounding of the result of an operation, and the operations of the engine. Their
  arguments are doubles. (\<open>Math.pow\<close> is taken as correctly rounded, as the others
  are.)
\<close>

fun rounded :: "jsnum \<Rightarrow> jsnum" where
  "rounded (Num r) = round_double r"
| "rounded v = v"

definition add_double :: "jsnum \<Rightarrow> jsnum \<Rightarrow> jsnum" where
  "add_double a b = rounded (js_add a b)"

definition sub_double :: "jsnum \<Rightarrow> jsnum \<Rightarrow> jsnum" where
  "sub_double a b = rounded (js_sub a b)"

definition mul_double :: "jsnum \<Rightarrow> jsnum \<Rightarrow> jsnum" where
  "mul_double a b = rounded (js_mul a b)"

definition div_double :: "jsnum \<Rightarrow> jsnum \<Rightarrow> jsnum" where
  "div_double a b = rounded (js_div a b)"

definition sqrt_double :: "jsnum \<Rightarrow> jsnum" where
  "sqrt_double a = rounded (js_sqrt a)"

definition pow2_double :: "jsnum \<Rightarrow> jsnum" where
  "pow2_double a = rounded (js_pow2 a)"

section \<open>Data model (types.ts)\<close>

text \<open>
  The fields \<open>x\<close> and \<open>y\<close> of \<open>Point\<close> are \<open>px\<close> and \<open>py\<close>; the fields of
  \<open>BaseElement\<close> are \<open>elId\<close>, \<open>elX\<close>, \<open>elY\<close> and the optional ones under their own
  names, \<open>None\<close> standing for an absent field; those of \<open>ViewState\<close> are \<open>viewX\<close>,
  \<open>viewY\<close> and \<open>scale\<close>.
\<close>

record Point =
  px :: jsnum
  py :: jsnum

record BaseElement =
  elId :: string
  elX :: jsnum
  elY :: jsnum
  rotation :: "jsnum option"
  strokeColor :: "string option"
  fillColor :: "string option"
  strokeWidth :: "jsnum option"

text \<open>
  The union \<open>WhiteboardElement\<close>, one constructor for each value of the \<open>type\<close> tag:
  the base fields first, then the fields of the variant in the order of types.ts.
\<close>

datatype WhiteboardElement =
    RectangleElement BaseElement jsnum jsnum
  | CircleElement BaseElement jsnum
  | TriangleElement BaseElement Point Point Point
  | ArrowElement BaseElement jsnum jsnum
  | PencilElement BaseElement "Point list"
  | ImageElement BaseElement string jsnum jsnum

fun base :: "WhiteboardElement \<Rightarrow> BaseElement" where
  "base (RectangleElement b w h) = b"
| "base (CircleElement b r) = b"
| "base (TriangleElement b p1 p2 p3) = b"
| "base (ArrowElement b ex ey) = b"
| "base (PencilElement b ps) = b"
| "base (ImageElement b s w h) = b"

record ViewState =
  viewX :: jsnum
  viewY :: jsnum
  scale :: jsnum

section \<open>History manager (hooks/useHistory)\<close>

text \<open>
  The two state cells of the hook. Each operation is applied to the state that the
  previous one committed (one operation per render).
\<close>

record HistoryState =
  history :: "WhiteboardElement list list"
  currentIndex :: nat

definition useHistory :: "WhiteboardElement list \<Rightarrow> HistoryState" where
  "useHistory initialElements = \<lparr>history = [initialElements], currentIndex = 0\<rparr>"

definition pushToHistory :: "HistoryState \<Rightarrow> WhiteboardElement list \<Rightarrow> HistoryState" where
  "pushToHistory st elements =
     (let newHistory = take (currentIndex st + 1) (history st) @ [elements];
          newHistory = (if length newHistory > 50 then tl newHistory else newHistory)
      in \<lparr>history = newHistory, currentIndex = length newHistory - 1\<rparr>)"

definition undo :: "HistoryState \<Rightarrow> HistoryState \<times> WhiteboardElement list option" where
  "undo st =
     (if currentIndex st > 0
      then (st\<lparr>currentIndex := currentIndex st - 1\<rparr>, Some (history st ! (currentIndex st - 1)))
      else (st, None))"

definition redo :: "HistoryState \<Rightarrow> HistoryState \<times> WhiteboardElement list option" where
  "redo st =
     (if int (currentIndex st) < int (length (history st)) - 1
      then (st\<lparr>currentIndex := currentIndex st + 1\<rparr>, Some (history st ! (currentIndex st + 1)))
      else (st, None))"

definition canUndo :: "HistoryState \<Rightarrow> bool" where
  "canUndo st = (currentIndex st > 0)"

definition canRedo :: "HistoryState \<Rightarrow> bool" where
  "canRedo st = (int (currentIndex st) < int (length (history st)) - 1)"

text \<open>A sequence of pushes, one after the other.\<close>

definition pushAll :: "HistoryState \<Rightarrow> WhiteboardElement list list \<Rightarrow> HistoryState" where
  "pushAll st snaps = foldl pushToHistory st snaps"

section \<open>Geometry kernel and coordinate transform (utils.ts)\<close>





text \<open>
  \<open>distance\<close>, on exact results; the hit tests, the bounds and the eraser read it, and
  none of their properties below depends on the rounding of a result.
\<close>

definition distance :: "Point \<Rightarrow> Point \<Rightarrow> jsnum" where
  "distance a b =
     js_sqrt (js_add (js_pow2 (js_sub (px a) (px b))) (js_pow2 (js_sub (py a) (py b))))"

definition isPointNearLine :: "Point \<Rightarrow> Point \<Rightarrow> Point \<Rightarrow> jsnum \<Rightarrow> bool" where
  "isPointNearLine p a b threshold =
     (let len = distance a b in
      if js_eq len (Num 0) then js_lt (distance p a) threshold
      else
        let dist = js_div (js_abs (js_sub (js_add (js_sub
                      (js_mul (js_sub (py b) (py a)) (px p))
                      (js_mul (js_sub (px b) (px a)) (py p)))
                      (js_mul (px b) (py a)))
                      (js_mul (py b) (px a)))) len;
            minX = js_sub (js_min (px a) (px b)) threshold;
            maxX = js_add (js_max (px a) (px b)) threshold;
            minY = js_sub (js_min (py a) (py b)) threshold;
            maxY = js_add (js_max (py a) (py b)) threshold
        in js_lt dist threshold \<and> js_ge (px p) minX \<and> js_le (px p) maxX
           \<and> js_ge (py p) minY \<and> js_le (py p) maxY)"

definition getTriangleArea :: "Point \<Rightarrow> Point \<Rightarrow> Point \<Rightarrow> jsnum" where
  "getTriangleArea p1 p2 p3 =
     js_mul (Num (1 / 2)) (js_abs (js_add (js_add
       (js_mul (px p1) (js_sub (py p2) (py p3)))
       (js_mul (px p2) (js_sub (py p3) (py p1))))
       (js_mul (px p3) (js_sub (py p1) (py p2)))))"

text \<open>
  The object that \<open>getTriangleAngles\<close> returns: its fields \<open>A\<close>, \<open>B\<close>, \<open>C\<close> are the
  angles and \<open>a\<close>, \<open>b\<close>, \<open>c\<close> the sides.
\<close>

record TriangleAngles =
  angleA :: jsnum
  angleB :: jsnum
  angleC :: jsnum
  sideA :: jsnum
  sideB :: jsnum
  sideC :: jsnum

definition radToDeg :: "jsnum \<Rightarrow> jsnum" where
  "radToDeg rad = js_mul rad (js_div (Num 180) (Num pi))"

text \<open>
  The argument of \<open>Math.acos\<close> in the law of cosines, \<open>(s1 + s2 - s3) / (2 * l1 * l2)\<close>,
  for the squared sides \<open>s1\<close>, \<open>s2\<close>, \<open>s3\<close> and the sides \<open>l1\<close>, \<open>l2\<close>.
\<close>

definition cosineArgument :: "jsnum \<Rightarrow> jsnum \<Rightarrow> jsnum \<Rightarrow> jsnum \<Rightarrow> jsnum \<Rightarrow> jsnum" where
  "cosineArgument s1 s2 s3 l1 l2 =
     js_div (js_sub (js_add s1 s2) s3) (js_mul (js_mul (Num 2) l1) l2)"

definition getTriangleAngles :: "Point \<Rightarrow> Point \<Rightarrow> Point \<Rightarrow> TriangleAngles" where
  "getTriangleAngles p1 p2 p3 =
     (let a2 = js_pow2 (distance p2 p3);
          b2 = js_pow2 (distance p1 p3);
          c2 = js_pow2 (distance p1 p2);
          a = js_sqrt a2;
          b = js_sqrt b2;
          c = js_sqrt c2
      in \<lparr>angleA = js_or (radToDeg (js_acos (cosineArgument b2 c2 a2 b c))) (Num 0),
          angleB = js_or (radToDeg (js_acos (cosineArgument a2 c2 b2 a c))) (Num 0),
          angleC = js_or (radToDeg (js_acos (cosineArgument a2 b2 c2 a b))) (Num 0),
          sideA = a, sideB = b, sideC = c\<rparr>)"

definition isPointInTriangle :: "Point \<Rightarrow> Point \<Rightarrow> Point \<Rightarrow> Point \<Rightarrow> bool" where
  "isPointInTriangle p p1 p2 p3 =
     (let areaOrig = getTriangleArea p1 p2 p3;
          area1 = getTriangleArea p p2 p3;
          area2 = getTriangleArea p1 p p3;
          area3 = getTriangleArea p1 p2 p
      in js_lt (js_abs (js_sub areaOrig (js_add (js_add area1 area2) area3))) (Num 1))"

text \<open>
  \<open>interpolatePoints\<close>, in double arithmetic: the distance it divides is \<open>distance\<close>
  with every result rounded (\<open>distance_double\<close>), so that squares too large make it
  \<open>Infinity\<close> and squares too small make it zero; the spacing may be either zero; and
  the counter \<open>i\<close> is a double, which \<open>i++\<close> leaves as it is from \<open>2 ^ 53\<close> on.
\<close>

definition distance_double :: "Point \<Rightarrow> Point \<Rightarrow> jsnum" where
  "distance_double a b =
     sqrt_double (add_double (pow2_double (sub_double (px a) (px b)))
                             (pow2_double (sub_double (py a) (py b))))"

text \<open>The point pushed by a round of the loop of \<open>interpolatePoints\<close>, with \<open>t = i / steps\<close>.\<close>

definition interpolatedPoint :: "Point \<Rightarrow> Point \<Rightarrow> jsnum \<Rightarrow> Point" where
  "interpolatedPoint p1 p2 t =
     \<lparr>px = add_double (px p1) (mul_double (sub_double (px p2) (px p1)) t),
      py = add_double (py p1) (mul_double (sub_double (py p2) (py p1)) t)\<rparr>"

text \<open>
  The loop \<open>for (let i = 0; i < steps; i++)\<close>. The result \<open>None\<close> is a loop that never
  leaves: every round pushes one more point (what the engine does when the array can
  grow no more is not modelled).
\<close>

partial_function (option) interpolateLoop ::
  "Point \<Rightarrow> Point \<Rightarrow> jsnum \<Rightarrow> jsnum \<Rightarrow> Point list \<Rightarrow> Point list option" where
  "interpolateLoop p1 p2 steps i points =
     (if js_lt i steps
      then interpolateLoop p1 p2 steps (add_double i (Num 1))
             (points @ [interpolatedPoint p1 p2 (div_double i steps)])
      else Some points)"

definition interpolatePoints :: "Point \<Rightarrow> Point \<Rightarrow> jsnum \<Rightarrow> Point list option" where
  "interpolatePoints p1 p2 spacing =
     (let dist = distance_double p1 p2;
          steps = js_ceil (div_double dist spacing)
      in interpolateLoop p1 p2 steps (Num 0) [])"

text \<open>The loop of the pencil branch of \<open>convertShapeToPoints\<close>, over consecutive points.\<close>

fun interpolatePencil :: "Point list \<Rightarrow> jsnum \<Rightarrow> Point list option" where
  "interpolatePencil (a # b # rest) spacing =
     Option.bind (interpolatePoints a b spacing) (\<lambda>seg.
     Option.bind (interpolatePencil (b # rest) spacing) (\<lambda>more.
     Some (seg @ more)))"
| "interpolatePencil ps spacing = Some []"

definition circlePoint :: "jsnum \<Rightarrow> jsnum \<Rightarrow> jsnum \<Rightarrow> jsnum \<Rightarrow> Point" where
  "circlePoint cx cy radius angle =
     \<lparr>px = js_add cx (js_mul radius (js_cos angle)),
      py = js_add cy (js_mul radius (js_sin angle))\<rparr>"

text \<open>The loop \<open>for (let i = 0; i <= steps; i++)\<close> of the circle branch.\<close>

partial_function (option) circleLoop ::
  "jsnum \<Rightarrow> jsnum \<Rightarrow> jsnum \<Rightarrow> jsnum \<Rightarrow> nat \<Rightarrow> Point list \<Rightarrow> Point list option" where
  "circleLoop cx cy radius steps i points =
     (if js_le (Num (real i)) steps
      then circleLoop cx cy radius steps (Suc i)
             (points @ [circlePoint cx cy radius
                (js_mul (js_mul (js_div (Num (real i)) steps) (Num 2)) (Num pi))])
      else Some points)"

text \<open>
  \<open>convertShapeToPoints\<close>. An entry \<open>None\<close> of the result is \<open>undefined\<close>: the pencil
  branch pushes \<open>pencil.points[pencil.points.length - 1]\<close>, which is \<open>undefined\<close> for a
  pencil without points. The result \<open>None\<close> is a call that never returns.
\<close>

fun convertShapeToPoints :: "WhiteboardElement \<Rightarrow> jsnum \<Rightarrow> Point option list option" where
  "convertShapeToPoints (PencilElement b ps) spacing =
     Option.bind (interpolatePencil ps spacing) (\<lambda>pts.
     Some (map Some pts @ [if ps = [] then None else Some (last ps)]))"
| "convertShapeToPoints (RectangleElement b w h) spacing =
     (let p1 = \<lparr>px = elX b, py = elY b\<rparr>;
          p2 = \<lparr>px = js_add (elX b) w, py = elY b\<rparr>;
          p3 = \<lparr>px = js_add (elX b) w, py = js_add (elY b) h\<rparr>;
          p4 = \<lparr>px = elX b, py = js_add (elY b) h\<rparr>
      in Option.bind (interpolatePoints p1 p2 spacing) (\<lambda>e1.
         Option.bind (interpolatePoints p2 p3 spacing) (\<lambda>e2.
         Option.bind (interpolatePoints p3 p4 spacing) (\<lambda>e3.
         Option.bind (interpolatePoints p4 p1 spacing) (\<lambda>e4.
         Some (map Some (e1 @ e2 @ e3 @ e4 @ [p1])))))))"
| "convertShapeToPoints (ImageElement b s w h) spacing =
     (let p1 = \<lparr>px = elX b, py = elY b\<rparr>;
          p2 = \<lparr>px = js_add (elX b) w, py = elY b\<rparr>;
          p3 = \<lparr>px = js_add (elX b) w, py = js_add (elY b) h\<rparr>;
          p4 = \<lparr>px = elX b, py = js_add (elY b) h\<rparr>
      in Option.bind (interpolatePoints p1 p2 spacing) (\<lambda>e1.
         Option.bind (interpolatePoints p2 p3 spacing) (\<lambda>e2.
         Option.bind (interpolatePoints p3 p4 spacing) (\<lambda>e3.
         Option.bind (interpolatePoints p4 p1 spacing) (\<lambda>e4.
         Some (map Some (e1 @ e2 @ e3 @ e4 @ [p1])))))))"
| "convertShapeToPoints (TriangleElement b p1 p2 p3) spacing =
     Option.bind (interpolatePoints p1 p2 spacing) (\<lambda>e1.
     Option.bind (interpolatePoints p2 p3 spacing) (\<lambda>e2.
     Option.bind (interpolatePoints p3 p1 spacing) (\<lambda>e3.
     Some (map Some (e1 @ e2 @ e3 @ [p1])))))"
| "convertShapeToPoints (CircleElement b radius) spacing =
     (let steps = js_ceil (js_div (js_mul (js_mul (Num 2) (Num pi)) radius) spacing)
      in Option.bind (circleLoop (elX b) (elY b) radius steps 0 []) (\<lambda>pts.
         Some (map Some pts)))"
| "convertShapeToPoints (ArrowElement b endX endY) spacing =
     Option.bind (interpolatePoints \<lparr>px = elX b, py = elY b\<rparr> \<lparr>px = endX, py = endY\<rparr> spacing)
       (\<lambda>pts. Some (map Some (pts @ [\<lparr>px = endX, py = endY\<rparr>])))"

section \<open>Bounds (utils/BoundsUtils.ts)\<close>

record Bounds =
  minX :: jsnum
  minY :: jsnum
  maxX :: jsnum
  maxY :: jsnum

fun getElementBounds :: "WhiteboardElement \<Rightarrow> Bounds" where
  "getElementBounds (RectangleElement b width height) =
     (let x = js_min (elX b) (js_add (elX b) width);
          y = js_min (elY b) (js_add (elY b) height);
          w = js_abs width;
          h = js_abs height
      in \<lparr>minX = x, minY = y, maxX = js_add x w, maxY = js_add y h\<rparr>)"
| "getElementBounds (ImageElement b s width height) =
     (let x = js_min (elX b) (js_add (elX b) width);
          y = js_min (elY b) (js_add (elY b) height);
          w = js_abs width;
          h = js_abs height
      in \<lparr>minX = x, minY = y, maxX = js_add x w, maxY = js_add y h\<rparr>)"
| "getElementBounds (CircleElement b radius) =
     \<lparr>minX = js_sub (elX b) radius, minY = js_sub (elY b) radius,
      maxX = js_add (elX b) radius, maxY = js_add (elY b) radius\<rparr>"
| "getElementBounds (TriangleElement b p1 p2 p3) =
     (let xs = [px p1, px p2, px p3];
          ys = [py p1, py p2, py p3]
      in \<lparr>minX = js_min_list xs, minY = js_min_list ys,
          maxX = js_max_list xs, maxY = js_max_list ys\<rparr>)"
| "getElementBounds (ArrowElement b endX endY) =
     \<lparr>minX = js_min (elX b) endX, minY = js_min (elY b) endY,
      maxX = js_max (elX b) endX, maxY = js_max (elY b) endY\<rparr>"
| "getElementBounds (PencilElement b points) =
     (if length points = 0 then \<lparr>minX = Num 0, minY = Num 0, maxX = Num 0, maxY = Num 0\<rparr>
      else
        let xs = map px points;
            ys = map py points
        in \<lparr>minX = js_min_list xs, minY = js_min_list ys,
            maxX = js_max_list xs, maxY = js_max_list ys\<rparr>)"

definition isPointInBounds :: "Point \<Rightarrow> Bounds \<Rightarrow> jsnum \<Rightarrow> bool" where
  "isPointInBounds p b padding =
     (js_ge (px p) (js_sub (minX b) padding) \<and> js_le (px p) (js_add (maxX b) padding) \<and>
      js_ge (py p) (js_sub (minY b) padding) \<and> js_le (py p) (js_add (maxY b) padding))"

text \<open>
  The loop \<open>for (let k = 0; k < p.points.length - 1; k++)\<close> of the pencil branch of
  \<open>hitTestElement\<close>, from the index \<open>k\<close> on.
\<close>

function pencilHitLoop :: "Point \<Rightarrow> Point list \<Rightarrow> jsnum \<Rightarrow> nat \<Rightarrow> bool" where
  "pencilHitLoop pos points threshold k =
     (if int k < int (length points) - 1
      then (if isPointNearLine pos (points ! k) (points ! (k + 1)) threshold then True
            else pencilHitLoop pos points threshold (k + 1))
      else False)"
  by pat_completeness auto
termination
  by (relation "measure (\<lambda>(pos, points, threshold, k). length points - k)") auto

declare pencilHitLoop.simps [simp del]

fun hitTestElement :: "WhiteboardElement \<Rightarrow> Point \<Rightarrow> jsnum \<Rightarrow> bool" where
  "hitTestElement (RectangleElement b width height) pos zoom =
     (let x = js_min (elX b) (js_add (elX b) width);
          y = js_min (elY b) (js_add (elY b) height);
          w = js_abs width;
          h = js_abs height
      in js_ge (px pos) x \<and> js_le (px pos) (js_add x w) \<and>
         js_ge (py pos) y \<and> js_le (py pos) (js_add y h))"
| "hitTestElement (ImageElement b s width height) pos zoom =
     (let x = js_min (elX b) (js_add (elX b) width);
          y = js_min (elY b) (js_add (elY b) height);
          w = js_abs width;
          h = js_abs height
      in js_ge (px pos) x \<and> js_le (px pos) (js_add x w) \<and>
         js_ge (py pos) y \<and> js_le (py pos) (js_add y h))"
| "hitTestElement (CircleElement b radius) pos zoom =
     js_le (distance pos \<lparr>px = elX b, py = elY b\<rparr>) radius"
| "hitTestElement (TriangleElement b p1 p2 p3) pos zoom = isPointInTriangle pos p1 p2 p3"
| "hitTestElement (ArrowElement b endX endY) pos zoom =
     isPointNearLine pos \<lparr>px = elX b, py = elY b\<rparr> \<lparr>px = endX, py = endY\<rparr>
       (js_div (Num 10) zoom)"
| "hitTestElement (PencilElement b points) pos zoom =
     (let threshold = js_div (Num 10) zoom;
          bounds = getElementBounds (PencilElement b points)
      in if \<not> isPointInBounds pos bounds threshold then False
         else pencilHitLoop pos points threshold 0)"

section \<open>Eraser (utils.ts, components/Whiteboard)\<close>

text \<open>The closure \<open>updateBounds\<close> of \<open>isElementRoughlyIntersecting\<close> on its four variables.\<close>

definition updateBounds :: "Bounds \<Rightarrow> jsnum \<Rightarrow> jsnum \<Rightarrow> Bounds" where
  "updateBounds bd x y =
     (let bd = (if js_lt x (minX bd) then bd\<lparr>minX := x\<rparr> else bd);
          bd = (if js_gt x (maxX bd) then bd\<lparr>maxX := x\<rparr> else bd);
          bd = (if js_lt y (minY bd) then bd\<lparr>minY := y\<rparr> else bd);
          bd = (if js_gt y (maxY bd) then bd\<lparr>maxY := y\<rparr> else bd)
      in bd)"

definition initialBounds :: Bounds where
  "initialBounds = \<lparr>minX = PosInf, minY = PosInf, maxX = NegInf, maxY = NegInf\<rparr>"

fun roughBounds :: "WhiteboardElement \<Rightarrow> Bounds" where
  "roughBounds (PencilElement b points) =
     foldl (\<lambda>bd p. updateBounds bd (px p) (py p)) initialBounds points"
| "roughBounds (RectangleElement b width height) =
     updateBounds (updateBounds initialBounds (elX b) (elY b))
       (js_add (elX b) width) (js_add (elY b) height)"
| "roughBounds (ImageElement b s width height) =
     updateBounds (updateBounds initialBounds (elX b) (elY b))
       (js_add (elX b) width) (js_add (elY b) height)"
| "roughBounds (CircleElement b radius) =
     updateBounds (updateBounds initialBounds (js_sub (elX b) radius) (js_sub (elY b) radius))
       (js_add (elX b) radius) (js_add (elY b) radius)"
| "roughBounds (TriangleElement b p1 p2 p3) =
     updateBounds (updateBounds (updateBounds initialBounds (px p1) (py p1)) (px p2) (py p2))
       (px p3) (py p3)"
| "roughBounds (ArrowElement b endX endY) =
     updateBounds (updateBounds initialBounds (elX b) (elY b)) endX endY"

text \<open>\<open>el.strokeWidth || d\<close> and \<open>el.strokeColor || d\<close> on the optional fields.\<close>

definition strokeWidthOr :: "WhiteboardElement \<Rightarrow> jsnum \<Rightarrow> jsnum" where
  "strokeWidthOr el d = (case strokeWidth (base el) of None \<Rightarrow> d | Some w \<Rightarrow> js_or w d)"

definition strokeColorOr :: "WhiteboardElement \<Rightarrow> string \<Rightarrow> string" where
  "strokeColorOr el d =
     (case strokeColor (base el) of None \<Rightarrow> d | Some c \<Rightarrow> if c = [] then d else c)"

definition isElementRoughlyIntersecting :: "WhiteboardElement \<Rightarrow> Point \<Rightarrow> jsnum \<Rightarrow> bool" where
  "isElementRoughlyIntersecting el eraser radius =
     (let bd = roughBounds el;
          padding = js_add (strokeWidthOr el (Num 2)) radius
      in js_ge (px eraser) (js_sub (minX bd) padding) \<and>
         js_le (px eraser) (js_add (maxX bd) padding) \<and>
         js_ge (py eraser) (js_sub (minY bd) padding) \<and>
         js_le (py eraser) (js_add (maxY bd) padding))"

definition ERASER_RADIUS :: jsnum where
  "ERASER_RADIUS = Num 20"

datatype js_error = TypeError

text \<open>
  The walk of \<open>performErase\<close> over the points of one shape, on the variables
  \<open>newSegments\<close> and \<open>currentSegment\<close>. \<open>distance\<close> reads \<open>p.x\<close>, which throws on
  \<open>undefined\<close>.
\<close>

fun eraseWalk ::
  "Point \<Rightarrow> jsnum \<Rightarrow> Point option list \<Rightarrow> Point list list \<Rightarrow> Point list
   \<Rightarrow> js_error + Point list list \<times> Point list" where
  "eraseWalk worldPos radius [] newSegments currentSegment = Inr (newSegments, currentSegment)"
| "eraseWalk worldPos radius (None # rest) newSegments currentSegment = Inl TypeError"
| "eraseWalk worldPos radius (Some p # rest) newSegments currentSegment =
     (if js_gt (distance p worldPos) radius
      then eraseWalk worldPos radius rest newSegments (currentSegment @ [p])
      else if length currentSegment > 0
      then eraseWalk worldPos radius rest (newSegments @ [currentSegment]) []
      else eraseWalk worldPos radius rest newSegments currentSegment)"

text \<open>
  The pencils that replace an erased shape, one for each segment of more than one point.
  \<open>generateId\<close> is random: the \<open>n\<close>-th identifier it returns is \<open>ids n\<close>.
\<close>

fun segmentPencils ::
  "(nat \<Rightarrow> string) \<Rightarrow> string \<Rightarrow> jsnum \<Rightarrow> WhiteboardElement \<Rightarrow> Point list list \<Rightarrow> nat
   \<Rightarrow> WhiteboardElement list \<times> nat" where
  "segmentPencils ids activeColor activeStrokeWidth el [] n = ([], n)"
| "segmentPencils ids activeColor activeStrokeWidth el (seg # segs) n =
     (if length seg > 1
      then (let pencil = PencilElement
                  \<lparr>elId = ids n, elX = px (hd seg), elY = py (hd seg), rotation = None,
                   strokeColor = Some (strokeColorOr el activeColor), fillColor = None,
                   strokeWidth = Some (strokeWidthOr el activeStrokeWidth)\<rparr> seg;
                (more, n') = segmentPencils ids activeColor activeStrokeWidth el segs (Suc n)
            in (pencil # more, n'))
      else segmentPencils ids activeColor activeStrokeWidth el segs n)"

text \<open>
  The loop of \<open>performErase\<close> over the shapes, on \<open>hasChanges\<close>, \<open>newList\<close> and the
  number of identifiers generated so far.
\<close>

fun eraseLoop ::
  "ViewState \<Rightarrow> (nat \<Rightarrow> string) \<Rightarrow> string \<Rightarrow> jsnum \<Rightarrow> Point \<Rightarrow> jsnum
   \<Rightarrow> WhiteboardElement list \<Rightarrow> bool \<Rightarrow> WhiteboardElement list \<Rightarrow> nat
   \<Rightarrow> (js_error + bool \<times> WhiteboardElement list) option" where
  "eraseLoop view ids activeColor activeStrokeWidth worldPos radius [] hasChanges newList n =
     Some (Inr (hasChanges, newList))"
| "eraseLoop view ids activeColor activeStrokeWidth worldPos radius (el # rest) hasChanges newList n =
     (if \<not> isElementRoughlyIntersecting el worldPos radius
      then eraseLoop view ids activeColor activeStrokeWidth worldPos radius rest
             hasChanges (newList @ [el]) n
      else
        case convertShapeToPoints el (js_div (Num 5) (scale view)) of
          None \<Rightarrow> None
        | Some points \<Rightarrow>
            (case eraseWalk worldPos radius points [] [] of
               Inl err \<Rightarrow> Some (Inl err)
             | Inr (segments, currentSegment) \<Rightarrow>
                 (let newSegments =
                        (if length currentSegment > 0 then segments @ [currentSegment]
                         else segments)
                  in if length newSegments = 1 \<and> length (newSegments ! 0) = length points
                     then eraseLoop view ids activeColor activeStrokeWidth worldPos radius rest
                            hasChanges (newList @ [el]) n
                     else
                       let (pencils, n') =
                             segmentPencils ids activeColor activeStrokeWidth el newSegments n
                       in eraseLoop view ids activeColor activeStrokeWidth worldPos radius rest
                            True (newList @ pencils) n')))"

text \<open>
  \<open>performErase\<close>, with the state it closes over as parameters: the view, the active
  colour and stroke width, and the identifiers \<open>generateId\<close> will return.
\<close>

definition performErase ::
  "ViewState \<Rightarrow> (nat \<Rightarrow> string) \<Rightarrow> string \<Rightarrow> jsnum \<Rightarrow> Point \<Rightarrow> WhiteboardElement list
   \<Rightarrow> (js_error + WhiteboardElement list) option" where
  "performErase view ids activeColor activeStrokeWidth worldPos currentList =
     (let radius = js_div ERASER_RADIUS (scale view)
      in case eraseLoop view ids activeColor activeStrokeWidth worldPos radius currentList
                False [] 0 of
           None \<Rightarrow> None
         | Some (Inl err) \<Rightarrow> Some (Inl err)
         | Some (Inr (hasChanges, newList)) \<Rightarrow>
             Some (Inr (if hasChanges then newList else currentList)))"

section \<open>Predicates and sample values of the properties\<close>

fun validCosine :: "jsnum \<Rightarrow> bool" where
  "validCosine (Num r) = (- 1 \<le> r \<and> r \<le> 1)"
| "validCosine NegZero = True"
| "validCosine v = False"

text \<open>
  The three arguments of \<open>Math.acos\<close> in \<open>getTriangleAngles\<close>, as functions of the
  vertices.
\<close>

definition cosineA :: "Point \<Rightarrow> Point \<Rightarrow> Point \<Rightarrow> jsnum" where
  "cosineA p1 p2 p3 =
     cosineArgument (js_pow2 (distance p1 p3)) (js_pow2 (distance p1 p2))
       (js_pow2 (distance p2 p3))
       (js_sqrt (js_pow2 (distance p1 p3))) (js_sqrt (js_pow2 (distance p1 p2)))"

definition cosineB :: "Point \<Rightarrow> Point \<Rightarrow> Point \<Rightarrow> jsnum" where
  "cosineB p1 p2 p3 =
     cosineArgument (js_pow2 (distance p2 p3)) (js_pow2 (distance p1 p2))
       (js_pow2 (distance p1 p3))
       (js_sqrt (js_pow2 (distance p2 p3))) (js_sqrt (js_pow2 (distance p1 p2)))"

definition cosineC :: "Point \<Rightarrow> Point \<Rightarrow> Point \<Rightarrow> jsnum" where
  "cosineC p1 p2 p3 =
     cosineArgument (js_pow2 (distance p2 p3)) (js_pow2 (distance p1 p3))
       (js_pow2 (distance p1 p2))
       (js_sqrt (js_pow2 (distance p2 p3))) (js_sqrt (js_pow2 (distance p1 p3)))"

definition finite_point :: "Point \<Rightarrow> bool" where
  "finite_point p = (finite_num (px p) \<and> finite_num (py p))"


text \<open>The numbers that \<open>getElementBounds\<close> reads from a shape are all finite.\<close>

fun finiteGeometry :: "WhiteboardElement \<Rightarrow> bool" where
  "finiteGeometry (RectangleElement b w h) =
     (finite_num (elX b) \<and> finite_num (elY b) \<and> finite_num w \<and> finite_num h)"
| "finiteGeometry (ImageElement b s w h) =
     (finite_num (elX b) \<and> finite_num (elY b) \<and> finite_num w \<and> finite_num h)"
| "finiteGeometry (CircleElement b r) =
     (finite_num (elX b) \<and> finite_num (elY b) \<and> finite_num r)"
| "finiteGeometry (TriangleElement b p1 p2 p3) =
     (finite_point p1 \<and> finite_point p2 \<and> finite_point p3)"
| "finiteGeometry (ArrowElement b ex ey) =
     (finite_num (elX b) \<and> finite_num (elY b) \<and> finite_num ex \<and> finite_num ey)"
| "finiteGeometry (PencilElement b ps) = list_all finite_point ps"

fun nonNegativeRadius :: "WhiteboardElement \<Rightarrow> bool" where
  "nonNegativeRadius (CircleElement b r) = js_ge r (Num 0)"
| "nonNegativeRadius el = True"

text \<open>The history is at its tail, non-empty and within the cap.\<close>

definition at_tail :: "HistoryState \<Rightarrow> bool" where
  "at_tail st =
     (history st \<noteq> [] \<and> length (history st) \<le> 50 \<and>
      currentIndex st = length (history st) - 1)"

text \<open>
  Sample values: the base fields of a shape at the origin with no optional field, and
  the snapshot number \<open>k\<close> of a family of distinct snapshots.
\<close>

definition originBase :: BaseElement where
  "originBase =
     \<lparr>elId = ''a'', elX = Num 0, elY = Num 0, rotation = None, strokeColor = None,
      fillColor = None, strokeWidth = None\<rparr>"

definition snapshotOf :: "nat \<Rightarrow> WhiteboardElement list" where
  "snapshotOf k = [CircleElement originBase (Num (real k))]"







definition loopCounter :: "jsnum \<Rightarrow> bool" where
  "loopCounter i = (\<exists>n::nat. n \<le> 2 ^ 53 \<and> i = Num (real n))"



definition hugeCoordinate :: real where
  "hugeCoordinate = 2 ^ 600"

definition thinCircle :: WhiteboardElement where
  "thinCircle = CircleElement (originBase\<lparr>strokeWidth := Some (Num 0)\<rparr>) (Num 0)"

section \<open>Arithmetic of numbers\<close>

lemma finite_num_iff: "finite_num v = ((\<exists>r. v = Num r) \<or> v = NegZero)"
  by (cases v) simp_all

lemma js_neg_finite: "finite_num a \<Longrightarrow> finite_num (js_neg a) \<and> num_val (js_neg a) = - num_val a"
  by (cases a) (auto simp: num_of_def)

lemma js_add_finite:
  "finite_num a \<Longrightarrow> finite_num b \<Longrightarrow>
   finite_num (js_add a b) \<and> num_val (js_add a b) = num_val a + num_val b"
  by (cases a; cases b) simp_all

lemma js_sub_finite:
  "finite_num a \<Longrightarrow> finite_num b \<Longrightarrow>
   finite_num (js_sub a b) \<and> num_val (js_sub a b) = num_val a - num_val b"
  using js_add_finite [of a "js_neg b"] js_neg_finite [of b] by (simp add: js_sub_def)




lemma js_abs_finite: "finite_num a \<Longrightarrow> finite_num (js_abs a) \<and> num_val (js_abs a) = \<bar>num_val a\<bar>"
  by (cases a) simp_all

lemma js_lt_finite: "finite_num a \<Longrightarrow> finite_num b \<Longrightarrow> js_lt a b = (num_val a < num_val b)"
  by (cases a; cases b) simp_all

lemma js_eq_finite: "finite_num a \<Longrightarrow> finite_num b \<Longrightarrow> js_eq a b = (num_val a = num_val b)"
  by (cases a; cases b) (auto simp: js_eq_def)

lemma js_le_finite: "finite_num a \<Longrightarrow> finite_num b \<Longrightarrow> js_le a b = (num_val a \<le> num_val b)"
  by (auto simp: js_le_def js_lt_finite js_eq_finite)

lemma js_min_finite:
  "finite_num a \<Longrightarrow> finite_num b \<Longrightarrow>
   finite_num (js_min a b) \<and> num_val (js_min a b) = min (num_val a) (num_val b)"
  by (cases a; cases b) (auto simp: js_min_def)

lemma js_max_finite:
  "finite_num a \<Longrightarrow> finite_num b \<Longrightarrow>
   finite_num (js_max a b) \<and> num_val (js_max a b) = max (num_val a) (num_val b)"
  by (cases a; cases b) (auto simp: js_max_def)

lemma js_sub_Num [simp]: "js_sub (Num a) (Num b) = Num (a - b)"
  by (simp add: js_sub_def num_of_def)

lemma js_mul_Num: "js_mul (Num a) (Num b) = num_of ((a < 0) \<noteq> (b < 0)) (a * b)"
  by (simp add: js_mul_def)

lemma js_div_Num:
  "js_div (Num a) (Num b) =
     (if b = 0 then (if a = 0 then NaN else inf_of (a < 0))
      else num_of ((a < 0) \<noteq> (b < 0)) (a / b))"
  by (simp add: js_div_def)

lemma js_le_Num [simp]: "js_le (Num a) (Num b) = (a \<le> b)"
  by (simp add: js_le_finite)

lemma js_min_Num [simp]: "js_min (Num a) (Num b) = Num (min a b)"
  by (auto simp: js_min_def)

lemma js_max_Num [simp]: "js_max (Num a) (Num b) = Num (max a b)"
  by (auto simp: js_max_def)

lemma foldl_js_min:
  "finite_num a \<Longrightarrow> list_all finite_num ns \<Longrightarrow>
   finite_num (foldl js_min a ns) \<and> num_val (foldl js_min a ns) \<le> num_val a"
proof (induction ns arbitrary: a)
  case Nil
  then show ?case by simp
next
  case (Cons n ns)
  then have f: "finite_num (js_min a n)" and v: "num_val (js_min a n) = min (num_val a) (num_val n)"
    using js_min_finite [of a n] by simp_all
  from Cons.IH [OF f] Cons.prems v show ?case by simp
qed

lemma foldl_js_max:
  "finite_num a \<Longrightarrow> list_all finite_num ns \<Longrightarrow>
   finite_num (foldl js_max a ns) \<and> num_val a \<le> num_val (foldl js_max a ns)"
proof (induction ns arbitrary: a)
  case Nil
  then show ?case by simp
next
  case (Cons n ns)
  then have f: "finite_num (js_max a n)" and v: "num_val (js_max a n) = max (num_val a) (num_val n)"
    using js_max_finite [of a n] by simp_all
  from Cons.IH [OF f] Cons.prems v show ?case by simp
qed

lemma js_min_PosInf: "finite_num n \<Longrightarrow> js_min PosInf n = n"
  by (cases n) (simp_all add: js_min_def)

lemma js_max_NegInf: "finite_num n \<Longrightarrow> js_max NegInf n = n"
  by (cases n) (simp_all add: js_max_def)

lemma min_le_max_list:
  assumes "ns \<noteq> []" and "list_all finite_num ns"
  shows "js_le (js_min_list ns) (js_max_list ns)"
proof -
  from assms obtain n rest where ns: "ns = n # rest" by (cases ns) auto
  with assms have n: "finite_num n" and rest: "list_all finite_num rest" by simp_all
  from foldl_js_min [OF n rest] foldl_js_max [OF n rest]
  have "finite_num (js_min_list ns)" "finite_num (js_max_list ns)"
    "num_val (js_min_list ns) \<le> num_val (js_max_list ns)"
    using n by (simp_all add: ns js_min_list_def js_max_list_def js_min_PosInf js_max_NegInf)
  then show ?thesis by (simp add: js_le_finite)
qed

lemma js_or_not_NaN: "d \<noteq> NaN \<Longrightarrow> js_or v d \<noteq> NaN"
  by (simp add: js_or_def js_truthy_def)

lemma js_or_NaN: "js_or NaN d = d"
  by (simp add: js_or_def js_truthy_def)

lemma radToDeg_NaN: "radToDeg NaN = NaN"
  by (simp add: radToDeg_def js_mul_def)


section \<open>Rounding to the nearest double\<close>


lemma round_half_even_int [simp]: "round_half_even (of_int m) = m"
  by (simp add: round_half_even_def)





lemma floor_log2:
  assumes "0 < x" and "2 powr of_int k \<le> x" and "x < 2 powr of_int (k + 1)"
  shows "\<lfloor>log 2 x\<rfloor> = k"
proof -
  from assms have "of_int k \<le> log 2 x"
    by (simp add: le_log_iff)
  moreover from assms have "log 2 x < of_int (k + 1)"
    by (simp add: log_less_iff)
  ultimately show ?thesis by linarith
qed

lemma binade_eq:
  assumes "2 powr of_int k \<le> \<bar>x\<bar>" and "\<bar>x\<bar> < 2 powr of_int (k + 1)" and "- 1022 \<le> k"
  shows "binade x = k"
proof -
  have "0 < (2::real) powr of_int k" by simp
  with assms(1) have "0 < \<bar>x\<bar>" by linarith
  from floor_log2 [OF this assms(1,2)] assms(3) show ?thesis by (simp add: binade_def)
qed

lemma round_magnitude_in_binade:
  assumes "2 powr of_int k \<le> \<bar>x\<bar>" and "\<bar>x\<bar> < 2 powr of_int (k + 1)" and "- 1022 \<le> k"
  shows "round_magnitude x =
     of_int (round_half_even (\<bar>x\<bar> / 2 powr of_int (k - 52))) * 2 powr of_int (k - 52)"
  using binade_eq [OF assms] by (simp add: round_magnitude_def ulp_def)


lemma double_bound_gt: "x \<le> 2 ^ 54 \<Longrightarrow> \<not> double_bound \<le> x"
proof -
  have "(2::real) ^ 54 < 2 ^ 1024" by (rule power_strict_increasing) simp_all
  then show "x \<le> 2 ^ 54 \<Longrightarrow> \<not> double_bound \<le> x" by (simp add: double_bound_def)
qed


lemma round_magnitude_exact:
  assumes "2 powr of_int k \<le> \<bar>x\<bar>" and "\<bar>x\<bar> < 2 powr of_int (k + 1)" and "- 1022 \<le> k"
    and "\<bar>x\<bar> / 2 powr of_int (k - 52) = of_int m"
  shows "round_magnitude x = \<bar>x\<bar>"
proof -
  have "round_magnitude x =
      of_int (round_half_even (\<bar>x\<bar> / 2 powr of_int (k - 52))) * 2 powr of_int (k - 52)"
    by (rule round_magnitude_in_binade [OF assms(1-3)])
  also have "\<dots> = of_int m * 2 powr of_int (k - 52)"
    by (simp only: assms(4) round_half_even_int)
  also have "\<dots> = \<bar>x\<bar> / 2 powr of_int (k - 52) * 2 powr of_int (k - 52)"
    by (simp only: assms(4))
  also have "\<dots> = \<bar>x\<bar>" by simp
  finally show ?thesis .
qed

text \<open>A natural number up to 2^53 is a double.\<close>

lemma round_magnitude_nat:
  assumes "0 < n" and "n \<le> 2 ^ 53"
  shows "round_magnitude (real n) = real n"
proof -
  define k where "k = \<lfloor>log 2 (real n)\<rfloor>"
  from assms have n1: "1 \<le> real n" by simp
  then have k0: "0 \<le> k" by (simp add: k_def)
  have lo: "2 powr of_int k \<le> real n"
    using n1 by (simp add: k_def powr_le_iff)
  have hi: "real n < 2 powr of_int (k + 1)"
    using n1 by (simp add: k_def less_powr_iff)
  from assms(2) have "real n \<le> real (2 ^ 53)" by (simp only: of_nat_le_iff)
  then have n53: "real n \<le> 2 ^ 53" by simp
  have "2 powr of_int k \<le> (2::real) ^ 53" using lo n53 by linarith
  then have k53: "k \<le> 53"
    using powr_le_cancel_iff [of 2 "of_int k" 53] by simp
  show ?thesis
  proof (cases "k = 53")
    case True
    with lo have "(2::real) ^ 53 \<le> real n" by simp
    with n53 have n: "real n = 2 ^ 53" by linarith
    have "round_magnitude (2 ^ 53) = \<bar>2 ^ 53 :: real\<bar>"
      by (rule round_magnitude_exact [where k = 53 and m = "2 ^ 52"]) simp_all
    with n show ?thesis by simp
  next
    case False
    with k53 k0 have kk: "0 \<le> 52 - k" by simp
    have "real n / 2 powr of_int (k - 52) = real n * 2 powr of_int (52 - k)"
      by (simp add: powr_diff field_simps)
    also have "\<dots> = real n * 2 ^ nat (52 - k)"
      using kk by (simp add: powr_realpow [symmetric])
    also have "\<dots> = of_int (int n * 2 ^ nat (52 - k))" by simp
    finally have "\<bar>real n\<bar> / 2 powr of_int (k - 52) = of_int (int n * 2 ^ nat (52 - k))" by simp
    from round_magnitude_exact [OF _ _ _ this] lo hi k0 show ?thesis by simp
  qed
qed

lemma round_double_nat: "n \<le> 2 ^ 53 \<Longrightarrow> round_double (real n) = Num (real n)"
proof (cases "n = 0")
  case True
  then show ?thesis by (simp add: round_double_def)
next
  case False
  assume le: "n \<le> 2 ^ 53"
  then have "real n \<le> real (2 ^ 53)" by (simp only: of_nat_le_iff)
  then have "real n \<le> 2 ^ 54" by simp
  then have "\<not> double_bound \<le> real n" by (rule double_bound_gt)
  with False le show ?thesis
    by (simp add: round_double_def round_magnitude_nat num_of_def)
qed

text \<open>Two values between doubles.\<close>

lemma round_magnitude_tie: "round_magnitude (2 ^ 53 + 1) = 2 ^ 53"
proof -
  have "round_magnitude (2 ^ 53 + 1) =
     of_int (round_half_even (\<bar>2 ^ 53 + 1\<bar> / 2 powr of_int (53 - 52))) * 2 powr of_int (53 - 52)"
    by (rule round_magnitude_in_binade) simp_all
  moreover have "\<bar>2 ^ 53 + 1 :: real\<bar> / 2 powr of_int (53 - 52) = 2 ^ 52 + 1 / 2"
    by simp
  moreover have "round_half_even (2 ^ 52 + 1 / 2) = 2 ^ 52"
    by (simp add: round_half_even_def Let_def)
  ultimately show ?thesis by simp
qed

lemma round_double_tie: "round_double (2 ^ 53 + 1) = Num (2 ^ 53)"
proof -
  have "\<not> double_bound \<le> 2 ^ 53" by (rule double_bound_gt) simp
  then show ?thesis unfolding round_double_def round_magnitude_tie
    by (simp add: num_of_def)
qed



lemma round_double_zero: "round_double 0 = Num 0"
  by (simp add: round_double_def)



lemma round_magnitude_minus: "round_magnitude (- x) = round_magnitude x"
  by (simp add: round_magnitude_def ulp_def binade_def)



lemma round_magnitude_power: "round_magnitude (2 ^ k) = 2 ^ k"
proof -
  have p: "(2::real) ^ k = 2 powr of_int (int k)" by (simp add: powr_realpow)
  have "round_magnitude (2 ^ k) = \<bar>2 ^ k :: real\<bar>"
  proof (rule round_magnitude_exact [where k = "int k" and m = "2 ^ 52"])
    show "2 powr of_int (int k) \<le> \<bar>2 ^ k :: real\<bar>" by (simp add: powr_realpow)
    show "\<bar>2 ^ k :: real\<bar> < 2 powr of_int (int k + 1)"
      by (simp add: powr_realpow powr_add)
    show "- 1022 \<le> int k" by simp
    have "\<bar>2 ^ k :: real\<bar> / 2 powr of_int (int k - 52) = 2 powr of_int (int k) / 2 powr of_int (int k - 52)"
      by (simp add: powr_realpow)
    also have "\<dots> = 2 powr 52" by (simp add: powr_diff [symmetric])
    finally show "\<bar>2 ^ k :: real\<bar> / 2 powr of_int (int k - 52) = of_int (2 ^ 52)" by simp
  qed
  then show ?thesis by simp
qed

lemma double_bound_power: "(double_bound \<le> 2 ^ k) = (1024 \<le> k)"
  unfolding double_bound_def by (rule power_increasing_iff) simp

lemma round_double_huge: "round_double (- hugeCoordinate) = Num (- hugeCoordinate)"
proof -
  have "0 < hugeCoordinate" by (simp add: hugeCoordinate_def)
  moreover have "round_magnitude (- hugeCoordinate) = hugeCoordinate"
    unfolding hugeCoordinate_def round_magnitude_minus by (rule round_magnitude_power)
  moreover have "\<not> double_bound \<le> hugeCoordinate"
    unfolding hugeCoordinate_def double_bound_power by simp
  ultimately show ?thesis by (simp add: round_double_def num_of_def)
qed

lemma round_double_huge_square: "round_double (hugeCoordinate * hugeCoordinate) = PosInf"
proof -
  have sq: "hugeCoordinate * hugeCoordinate = 2 ^ 1200"
    unfolding hugeCoordinate_def power_add [symmetric] by simp
  have "double_bound \<le> round_magnitude (2 ^ 1200)"
    unfolding round_magnitude_power double_bound_power by simp
  moreover have "(2::real) ^ 1200 \<noteq> 0" by simp
  ultimately show ?thesis unfolding sq round_double_def by simp
qed

section \<open>History manager\<close>

lemma push_at_tail:
  assumes "at_tail st"
  shows "history (pushToHistory st e) = drop (length (history st) + 1 - 50) (history st @ [e])"
    and "at_tail (pushToHistory st e)"
proof -
  from assms have ne: "history st \<noteq> []" and le: "length (history st) \<le> 50"
    and ci: "currentIndex st = length (history st) - 1"
    by (simp_all add: at_tail_def)
  from ne ci have tk: "take (currentIndex st + 1) (history st) = history st"
    by (cases "history st") simp_all
  show "history (pushToHistory st e) = drop (length (history st) + 1 - 50) (history st @ [e])"
  proof (cases "length (history st) = 50")
    case True
    then show ?thesis using ne unfolding pushToHistory_def tk
      by (cases "history st") (simp_all add: Let_def)
  next
    case False
    with le have "length (history st) < 50" by simp
    then show ?thesis unfolding pushToHistory_def tk
      by (simp add: Let_def)
  qed
  show "at_tail (pushToHistory st e)"
    using ne le unfolding pushToHistory_def tk by (auto simp add: at_tail_def Let_def)
qed

lemma pushAll_at_tail:
  "at_tail st \<Longrightarrow>
   history (pushAll st snaps) = drop (length (history st) + length snaps - 50) (history st @ snaps)
   \<and> at_tail (pushAll st snaps)"
proof (induction snaps arbitrary: st)
  case Nil
  then show ?case by (simp add: pushAll_def at_tail_def)
next
  case (Cons e snaps)
  let ?st = "pushToHistory st e"
  from Cons.prems have h: "history ?st = drop (length (history st) + 1 - 50) (history st @ [e])"
    and t: "at_tail ?st" by (rule push_at_tail)+
  from Cons.IH [OF t] have ih: "history (pushAll ?st snaps) =
      drop (length (history ?st) + length snaps - 50) (history ?st @ snaps)"
    and t': "at_tail (pushAll ?st snaps)" by simp_all
  from Cons.prems have le: "length (history st) \<le> 50" by (simp add: at_tail_def)
  have pa: "pushAll st (e # snaps) = pushAll ?st snaps" by (simp add: pushAll_def)
  have "drop (length (history ?st) + length snaps - 50) (history ?st @ snaps)
      = drop (length (history st) + length (e # snaps) - 50) (history st @ e # snaps)"
  proof (cases "length (history st) = 50")
    case True
    then have "history ?st @ snaps = drop 1 (history st @ e # snaps)"
      by (simp add: h)
    moreover from True have "length (history ?st) = 50" by (simp add: h)
    ultimately show ?thesis using True by simp
  next
    case False
    with le have "length (history st) < 50" by simp
    then show ?thesis by (simp add: h)
  qed
  with ih t' pa show ?case by simp
qed

text \<open>
  C1, as the code has it. From the stack \<open>[s0, s1, s2, s3, s4]\<close> at index 4, two undos
  leave the index at 2, and the push keeps the entries up to the index, \<open>s2\<close> included:
  the stack is \<open>[s0, s1, s2, X]\<close> of four entries, the index is 3 and nothing can be
  redone.
\<close>

theorem undo_undo_push_truncates_after_current:
  "history (pushToHistory (fst (undo (fst (undo
      \<lparr>history = [s0, s1, s2, s3, s4], currentIndex = 4\<rparr>)))) X) = [s0, s1, s2, X]
   \<and> currentIndex (pushToHistory (fst (undo (fst (undo
      \<lparr>history = [s0, s1, s2, s3, s4], currentIndex = 4\<rparr>)))) X) = 3
   \<and> \<not> canRedo (pushToHistory (fst (undo (fst (undo
      \<lparr>history = [s0, s1, s2, s3, s4], currentIndex = 4\<rparr>)))) X)"
  by (simp add: undo_def pushToHistory_def canRedo_def Let_def)

text \<open>
  C1 as stated fails: on the snapshots number 0 to 4 and the push of snapshot number 5, the
  result is not the stack \<open>[s0, s1, X]\<close> at index 2.
\<close>

theorem undo_undo_push_three_entries_counterexample:
  "\<not> (history (pushToHistory (fst (undo (fst (undo
         \<lparr>history = [snapshotOf 0, snapshotOf 1, snapshotOf 2, snapshotOf 3, snapshotOf 4],
          currentIndex = 4\<rparr>)))) (snapshotOf 5))
        = [snapshotOf 0, snapshotOf 1, snapshotOf 5]
      \<and> currentIndex (pushToHistory (fst (undo (fst (undo
         \<lparr>history = [snapshotOf 0, snapshotOf 1, snapshotOf 2, snapshotOf 3, snapshotOf 4],
          currentIndex = 4\<rparr>)))) (snapshotOf 5)) = 2
      \<and> \<not> canRedo (pushToHistory (fst (undo (fst (undo
         \<lparr>history = [snapshotOf 0, snapshotOf 1, snapshotOf 2, snapshotOf 3, snapshotOf 4],
          currentIndex = 4\<rparr>)))) (snapshotOf 5)))"
  by (simp add: undo_def pushToHistory_def Let_def)

text \<open>
  C4. From the initial history, sixty pushes leave exactly fifty entries, the last fifty
  snapshots pushed in the order of the pushes, and the index on the last entry, which is
  the snapshot pushed last.
\<close>

theorem sixty_pushes_keep_last_fifty:
  assumes "length snaps = 60"
  shows "history (pushAll (useHistory init) snaps) = drop 10 snaps
   \<and> length (history (pushAll (useHistory init) snaps)) = 50
   \<and> currentIndex (pushAll (useHistory init) snaps) = 49
   \<and> history (pushAll (useHistory init) snaps) ! currentIndex (pushAll (useHistory init) snaps)
       = last snaps"
proof -
  have t: "at_tail (useHistory init)" by (simp add: at_tail_def useHistory_def)
  from pushAll_at_tail [OF t, of snaps] assms
  have h: "history (pushAll (useHistory init) snaps) = drop 10 snaps"
    and t': "at_tail (pushAll (useHistory init) snaps)"
    by (simp_all add: useHistory_def)
  from h assms have l: "length (history (pushAll (useHistory init) snaps)) = 50" by simp
  from t' l have c: "currentIndex (pushAll (useHistory init) snaps) = 49"
    by (simp add: at_tail_def)
  from assms have "snaps \<noteq> []" by auto
  with assms have "drop 10 snaps ! 49 = last snaps"
    by (simp add: last_conv_nth)
  with h l c show ?thesis by simp
qed

theorem sixty_pushes_keep_last_fifty_witness:
  "length (map snapshotOf [1..<61]) = 60
   \<and> distinct (map snapshotOf [1..<61])
   \<and> history (pushAll (useHistory []) (map snapshotOf [1..<61])) = map snapshotOf [11..<61]
   \<and> length (history (pushAll (useHistory []) (map snapshotOf [1..<61]))) = 50
   \<and> currentIndex (pushAll (useHistory []) (map snapshotOf [1..<61])) = 49"
  using sixty_pushes_keep_last_fifty [of "map snapshotOf [1..<61]" "[]"]
  by (simp add: distinct_map inj_on_def snapshotOf_def drop_map)

section \<open>Coordinate transform\<close>






section \<open>Geometry kernel\<close>

lemma acos_invalid: "\<not> validCosine v \<Longrightarrow> js_acos v = NaN"
  by (cases v) auto

lemma angle_degrades: "\<not> validCosine v \<Longrightarrow> js_or (radToDeg (js_acos v)) (Num 0) = Num 0"
  by (simp add: acos_invalid radToDeg_NaN js_or_NaN)

lemma angles_unfold:
  "angleA (getTriangleAngles p1 p2 p3) = js_or (radToDeg (js_acos (cosineA p1 p2 p3))) (Num 0)"
  "angleB (getTriangleAngles p1 p2 p3) = js_or (radToDeg (js_acos (cosineB p1 p2 p3))) (Num 0)"
  "angleC (getTriangleAngles p1 p2 p3) = js_or (radToDeg (js_acos (cosineC p1 p2 p3))) (Num 0)"
  by (simp_all add: getTriangleAngles_def Let_def cosineA_def cosineB_def cosineC_def)

text \<open>
  C8. For every three points, whatever their coordinates, none of the angles \<open>A\<close>, \<open>B\<close>,
  \<open>C\<close> of \<open>getTriangleAngles\<close> is \<open>NaN\<close>; and an angle whose cosine argument is not a
  number of \<open>[-1, 1]\<close> (it is \<open>NaN\<close>, infinite or out of the interval) is \<open>0\<close>.
\<close>

theorem getTriangleAngles_never_NaN:
  "angleA (getTriangleAngles p1 p2 p3) \<noteq> NaN
   \<and> angleB (getTriangleAngles p1 p2 p3) \<noteq> NaN
   \<and> angleC (getTriangleAngles p1 p2 p3) \<noteq> NaN
   \<and> (\<not> validCosine (cosineA p1 p2 p3) \<longrightarrow> angleA (getTriangleAngles p1 p2 p3) = Num 0)
   \<and> (\<not> validCosine (cosineB p1 p2 p3) \<longrightarrow> angleB (getTriangleAngles p1 p2 p3) = Num 0)
   \<and> (\<not> validCosine (cosineC p1 p2 p3) \<longrightarrow> angleC (getTriangleAngles p1 p2 p3) = Num 0)"
  by (simp add: angles_unfold js_or_not_NaN angle_degrades)

text \<open>Three coincident points: every cosine argument is \<open>0 / 0\<close>, every angle is \<open>0\<close>.\<close>

theorem getTriangleAngles_never_NaN_witness:
  "\<not> validCosine (cosineA \<lparr>px = Num 0, py = Num 0\<rparr> \<lparr>px = Num 0, py = Num 0\<rparr>
        \<lparr>px = Num 0, py = Num 0\<rparr>)
   \<and> \<not> validCosine (cosineB \<lparr>px = Num 0, py = Num 0\<rparr> \<lparr>px = Num 0, py = Num 0\<rparr>
        \<lparr>px = Num 0, py = Num 0\<rparr>)
   \<and> \<not> validCosine (cosineC \<lparr>px = Num 0, py = Num 0\<rparr> \<lparr>px = Num 0, py = Num 0\<rparr>
        \<lparr>px = Num 0, py = Num 0\<rparr>)
   \<and> angleA (getTriangleAngles \<lparr>px = Num 0, py = Num 0\<rparr> \<lparr>px = Num 0, py = Num 0\<rparr>
        \<lparr>px = Num 0, py = Num 0\<rparr>) = Num 0
   \<and> angleB (getTriangleAngles \<lparr>px = Num 0, py = Num 0\<rparr> \<lparr>px = Num 0, py = Num 0\<rparr>
        \<lparr>px = Num 0, py = Num 0\<rparr>) = Num 0
   \<and> angleC (getTriangleAngles \<lparr>px = Num 0, py = Num 0\<rparr> \<lparr>px = Num 0, py = Num 0\<rparr>
        \<lparr>px = Num 0, py = Num 0\<rparr>) = Num 0"
  using getTriangleAngles_never_NaN
    [of "\<lparr>px = Num 0, py = Num 0\<rparr>" "\<lparr>px = Num 0, py = Num 0\<rparr>" "\<lparr>px = Num 0, py = Num 0\<rparr>"]
  by (simp add: cosineA_def cosineB_def cosineC_def cosineArgument_def distance_def
      js_mul_Num js_div_Num num_of_def)

subsection \<open>interpolatePoints\<close>












lemma loopCounter_next: "loopCounter i \<Longrightarrow> loopCounter (add_double i (Num 1))"
proof -
  assume "loopCounter i"
  then obtain n :: nat where n: "n \<le> 2 ^ 53" "i = Num (real n)"
    by (auto simp: loopCounter_def)
  show ?thesis
  proof (cases "n = 2 ^ 53")
    case True
    then have "real n = 2 ^ 53" by simp
    with n have "add_double i (Num 1) = Num (2 ^ 53)"
      by (simp only: add_double_def js_add.simps rounded.simps round_double_tie)
    then have "add_double i (Num 1) = Num (real (2 ^ 53))" by simp
    then show ?thesis unfolding loopCounter_def by (intro exI [of _ "2 ^ 53"]) simp
  next
    case False
    with n have le: "Suc n \<le> 2 ^ 53" by simp
    have "real n + 1 = real (Suc n)" by simp
    with n have "add_double i (Num 1) = Num (real (Suc n))"
      using round_double_nat [OF le]
      by (simp only: add_double_def js_add.simps rounded.simps)
    with le show ?thesis unfolding loopCounter_def by blast
  qed
qed

lemma interpolateLoop_returns:
  assumes "interpolateLoop p1 p2 steps i pts = Some r"
  shows "\<not> (steps = PosInf \<and> loopCounter i)"
  using assms
proof (rule interpolateLoop.raw_induct
        [where P = "\<lambda>p1 p2 steps i pts r. \<not> (steps = PosInf \<and> loopCounter i)", rotated])
  fix f p1 p2 steps i points r
  assume ih: "\<And>p1 p2 steps i points r.
      f p1 p2 steps i points = Some r \<Longrightarrow> \<not> (steps = PosInf \<and> loopCounter i)"
    and eq: "(if js_lt i steps
        then f p1 p2 steps (add_double i (Num 1))
               (points @ [interpolatedPoint p1 p2 (div_double i steps)])
        else Some points) = Some r"
  show "\<not> (steps = PosInf \<and> loopCounter i)"
  proof
    assume a: "steps = PosInf \<and> loopCounter i"
    then have "js_lt i steps" by (auto simp: loopCounter_def)
    with eq have "f p1 p2 steps (add_double i (Num 1))
               (points @ [interpolatedPoint p1 p2 (div_double i steps)]) = Some r" by simp
    from ih [OF this] a loopCounter_next show False by blast
  qed
qed

lemma interpolateLoop_PosInf: "interpolateLoop p1 p2 PosInf (Num 0) [] = None"
proof -
  have "loopCounter (Num 0)" unfolding loopCounter_def by (intro exI [of _ 0]) simp
  with interpolateLoop_returns [of p1 p2 PosInf "Num 0" "[]"] show ?thesis
    by (cases "interpolateLoop p1 p2 PosInf (Num 0) []") auto
qed



text \<open>
  Coordinates far apart: the square of the difference is out of range, the distance is
  \<open>Infinity\<close>, and so is the number of steps for a spacing of 5.
\<close>

lemma distance_double_overflow:
  "distance_double \<lparr>px = Num 0, py = Num 0\<rparr> \<lparr>px = Num hugeCoordinate, py = Num 0\<rparr> = PosInf"
proof -
  have s: "sub_double (Num 0) (Num hugeCoordinate) = Num (- hugeCoordinate)"
    by (simp add: sub_double_def round_double_huge)
  have p: "pow2_double (Num (- hugeCoordinate)) = PosInf"
    by (simp add: pow2_double_def round_double_huge_square)
  have z: "pow2_double (sub_double (Num 0) (Num 0)) = Num 0"
    by (simp add: pow2_double_def sub_double_def round_double_zero)
  show ?thesis
    unfolding distance_double_def Point.simps s p z
    by (simp add: add_double_def sqrt_double_def)
qed

lemma interpolatePoints_overflow:
  "interpolatePoints \<lparr>px = Num 0, py = Num 0\<rparr> \<lparr>px = Num hugeCoordinate, py = Num 0\<rparr> (Num 5) = None"
  by (simp add: interpolatePoints_def distance_double_overflow div_double_def js_div_def
      interpolateLoop_PosInf)




section \<open>Bounds and hit testing\<close>

text \<open>
  C2, as the code has it. The rectangle at the origin of width 100 and height 50 has the
  bounds \<open>(0, 0, 100, 50)\<close>; with the width \<open>-100\<close> the bounds are normalised to
  \<open>(-100, 0, 0, 50)\<close>, the rectangle lying to the left of its anchor.
\<close>

theorem getElementBounds_rectangle_scenario:
  "getElementBounds (RectangleElement (b\<lparr>elX := Num 0, elY := Num 0\<rparr>) (Num 100) (Num 50))
     = \<lparr>minX = Num 0, minY = Num 0, maxX = Num 100, maxY = Num 50\<rparr>
   \<and> getElementBounds (RectangleElement (b\<lparr>elX := Num 0, elY := Num 0\<rparr>) (Num (- 100)) (Num 50))
     = \<lparr>minX = Num (- 100), minY = Num 0, maxX = Num 0, maxY = Num 50\<rparr>"
  by (simp add: Let_def)

text \<open>
  C2 as stated fails: the bounds of the rectangle of width \<open>-100\<close> are not
  \<open>(0, 0, 100, 50)\<close>.
\<close>

theorem getElementBounds_negative_width_counterexample:
  "getElementBounds (RectangleElement originBase (Num (- 100)) (Num 50))
     \<noteq> \<lparr>minX = Num 0, minY = Num 0, maxX = Num 100, maxY = Num 50\<rparr>"
  by (simp add: originBase_def Let_def)

text \<open>
  C9, as the code has it. For every shape whose geometry is finite and, for a circle,
  whose radius is not negative, the bounds are ordered: \<open>minX \<le> maxX\<close> and
  \<open>minY \<le> maxY\<close>. Rectangles and images may have a negative width or height, and a
  pencil may have no point.
\<close>

theorem getElementBounds_ordered:
  assumes "finiteGeometry el" and "nonNegativeRadius el"
  shows "js_le (minX (getElementBounds el)) (maxX (getElementBounds el))
       \<and> js_le (minY (getElementBounds el)) (maxY (getElementBounds el))"
proof -
  have rect: "js_le (js_min x (js_add x w)) (js_add (js_min x (js_add x w)) (js_abs w))"
    if "finite_num x" "finite_num w" for x w
  proof -
    from that have s: "finite_num (js_add x w)" using js_add_finite by blast
    with that have m: "finite_num (js_min x (js_add x w))" using js_min_finite by blast
    from that have a: "finite_num (js_abs w)" "0 \<le> num_val (js_abs w)"
      using js_abs_finite [of w] by simp_all
    from js_add_finite [OF m a(1)] m a(2) show ?thesis
      by (simp add: js_le_finite)
  qed
  have circ: "js_le (js_sub x r) (js_add x r)"
    if "finite_num x" "finite_num r" "js_ge r (Num 0)" for x r
  proof -
    from that have "0 \<le> num_val r" by (simp add: js_ge_def js_le_finite)
    with js_sub_finite [OF that(1,2)] js_add_finite [OF that(1,2)] show ?thesis
      by (simp add: js_le_finite)
  qed
  have mm: "js_le (js_min x e) (js_max x e)" if "finite_num x" "finite_num e" for x e
    using js_min_finite [OF that] js_max_finite [OF that] by (simp add: js_le_finite)
  show ?thesis
  proof (cases el)
    case (RectangleElement b w h)
    with assms show ?thesis by (simp add: Let_def rect)
  next
    case (ImageElement b s w h)
    with assms show ?thesis by (simp add: Let_def rect)
  next
    case (CircleElement b r)
    with assms show ?thesis by (simp add: circ)
  next
    case (TriangleElement b p1 p2 p3)
    with assms have fx: "list_all finite_num [px p1, px p2, px p3]"
      and fy: "list_all finite_num [py p1, py p2, py p3]"
      by (simp_all add: finite_point_def)
    have "js_le (js_min_list [px p1, px p2, px p3]) (js_max_list [px p1, px p2, px p3])"
      by (rule min_le_max_list [OF _ fx]) simp
    moreover have "js_le (js_min_list [py p1, py p2, py p3]) (js_max_list [py p1, py p2, py p3])"
      by (rule min_le_max_list [OF _ fy]) simp
    ultimately show ?thesis using TriangleElement by (simp add: Let_def)
  next
    case (ArrowElement b ex ey)
    with assms show ?thesis by (simp add: mm)
  next
    case (PencilElement b ps)
    show ?thesis
    proof (cases "ps = []")
      case True
      with PencilElement show ?thesis by simp
    next
      case False
      from assms PencilElement have "list_all finite_num (map px ps)"
        and "list_all finite_num (map py ps)"
        by (simp_all add: list_all_iff finite_point_def)
      with False have "js_le (js_min_list (map px ps)) (js_max_list (map px ps))"
        and "js_le (js_min_list (map py ps)) (js_max_list (map py ps))"
        by (simp_all add: min_le_max_list)
      with False PencilElement show ?thesis by (simp add: Let_def)
    qed
  qed
qed

theorem getElementBounds_ordered_witness:
  "finiteGeometry (RectangleElement originBase (Num (- 100)) (Num (- 50)))
   \<and> nonNegativeRadius (RectangleElement originBase (Num (- 100)) (Num (- 50)))
   \<and> js_le (minX (getElementBounds (RectangleElement originBase (Num (- 100)) (Num (- 50)))))
            (maxX (getElementBounds (RectangleElement originBase (Num (- 100)) (Num (- 50)))))
   \<and> js_le (minY (getElementBounds (RectangleElement originBase (Num (- 100)) (Num (- 50)))))
            (maxY (getElementBounds (RectangleElement originBase (Num (- 100)) (Num (- 50)))))
   \<and> finiteGeometry (CircleElement originBase (Num 3))
   \<and> nonNegativeRadius (CircleElement originBase (Num 3))
   \<and> js_le (minX (getElementBounds (CircleElement originBase (Num 3))))
            (maxX (getElementBounds (CircleElement originBase (Num 3))))
   \<and> finiteGeometry (PencilElement originBase [])
   \<and> nonNegativeRadius (PencilElement originBase [])
   \<and> js_le (minX (getElementBounds (PencilElement originBase [])))
            (maxX (getElementBounds (PencilElement originBase [])))"
  using getElementBounds_ordered [of "RectangleElement originBase (Num (- 100)) (Num (- 50))"]
    getElementBounds_ordered [of "CircleElement originBase (Num 3)"]
    getElementBounds_ordered [of "PencilElement originBase []"]
  by (simp add: originBase_def js_ge_def)

text \<open>
  C9 as stated fails: the circle at the origin of radius \<open>-1\<close> has \<open>minX = 1\<close> and
  \<open>maxX = -1\<close>.
\<close>

theorem getElementBounds_negative_radius_counterexample:
  "\<not> js_le (minX (getElementBounds (CircleElement originBase (Num (- 1)))))
           (maxX (getElementBounds (CircleElement originBase (Num (- 1)))))"
  by (simp add: originBase_def)

subsection \<open>Hit testing\<close>





text \<open>
  C10. A pencil of fewer than two points is never hit, whatever the position and the
  zoom, the position of its only point included.
\<close>

theorem hitTestElement_short_pencil:
  "length points < 2 \<Longrightarrow> hitTestElement (PencilElement b points) pos zoom = False"
  by (subst hitTestElement.simps, subst pencilHitLoop.simps) (simp add: Let_def)

theorem hitTestElement_short_pencil_witness:
  "length [\<lparr>px = Num 0, py = Num 0\<rparr>] < 2
   \<and> hitTestElement (PencilElement originBase [\<lparr>px = Num 0, py = Num 0\<rparr>])
        \<lparr>px = Num 0, py = Num 0\<rparr> (Num 1) = False"
  using hitTestElement_short_pencil
    [of "[\<lparr>px = Num 0, py = Num 0\<rparr>]" originBase "\<lparr>px = Num 0, py = Num 0\<rparr>" "Num 1"]
  by simp

section \<open>Eraser\<close>

lemma eraseLoop_miss:
  "\<forall>el \<in> set L. \<not> isElementRoughlyIntersecting el e radius \<Longrightarrow>
   eraseLoop view ids ac asw e radius L hc newList n = Some (Inr (hc, newList @ L))"
  by (induction L arbitrary: hc newList n) simp_all

text \<open>
  C6, as the code has it. If the eraser position is outside the bounds of every shape of
  the list as \<open>isElementRoughlyIntersecting\<close> takes them, expanded by the stroke width,
  where an absent or zero stroke width counts as 2, plus the eraser radius
  \<open>20 / scale\<close>, then \<open>performErase\<close> returns the list it was given: no shape is
  replaced.
\<close>

theorem performErase_miss_unchanged:
  "\<forall>el \<in> set L. \<not> isElementRoughlyIntersecting el e (js_div ERASER_RADIUS (scale view)) \<Longrightarrow>
   performErase view ids activeColor activeStrokeWidth e L = Some (Inr L)"
  by (simp add: performErase_def eraseLoop_miss)

theorem performErase_miss_unchanged_witness:
  "\<not> isElementRoughlyIntersecting (RectangleElement originBase (Num 100) (Num 50))
        \<lparr>px = Num 1000, py = Num 1000\<rparr>
        (js_div ERASER_RADIUS (scale \<lparr>viewX = Num 0, viewY = Num 0, scale = Num 1\<rparr>))
   \<and> performErase \<lparr>viewX = Num 0, viewY = Num 0, scale = Num 1\<rparr> (\<lambda>n. ''p'') ''#000000'' (Num 2)
        \<lparr>px = Num 1000, py = Num 1000\<rparr> [RectangleElement originBase (Num 100) (Num 50)]
       = Some (Inr [RectangleElement originBase (Num 100) (Num 50)])"
  using performErase_miss_unchanged
    [of "[RectangleElement originBase (Num 100) (Num 50)]" "\<lparr>px = Num 1000, py = Num 1000\<rparr>"
        "\<lparr>viewX = Num 0, viewY = Num 0, scale = Num 1\<rparr>" "\<lambda>n. ''p''" "''#000000''" "Num 2"]
  by (simp add: isElementRoughlyIntersecting_def ERASER_RADIUS_def updateBounds_def
      initialBounds_def strokeWidthOr_def originBase_def js_gt_def js_ge_def js_div_Num num_of_def
      Let_def)

lemma thinCircle_points:
  "convertShapeToPoints thinCircle (Num 5) = Some [Some \<lparr>px = NaN, py = NaN\<rparr>]"
  apply (simp add: thinCircle_def originBase_def js_mul_Num js_div_Num num_of_def)
  apply (subst circleLoop.simps, simp add: circlePoint_def js_div_Num js_mul_def num_of_def)
  apply (subst circleLoop.simps, simp)
  done

text \<open>
  C6 as stated fails: the circle at the origin of radius zero and stroke width zero, the
  eraser at \<open>(21, 0)\<close> and the scale 1. The eraser is outside the bounds of the circle
  expanded by its stroke width plus the radius, \<open>0 + 20\<close>, yet \<open>performErase\<close> returns
  the empty list: the test of the code pads by \<open>2 + 20\<close>, the only point the circle is
  converted to has the coordinates \<open>NaN\<close>, and it is dropped.
\<close>

theorem performErase_zero_stroke_counterexample:
  "\<not> isPointInBounds \<lparr>px = Num 21, py = Num 0\<rparr> (getElementBounds thinCircle)
        (js_add (Num 0) (js_div ERASER_RADIUS (scale \<lparr>viewX = Num 0, viewY = Num 0, scale = Num 1\<rparr>)))
   \<and> \<not> isPointInBounds \<lparr>px = Num 21, py = Num 0\<rparr> (roughBounds thinCircle)
        (js_add (Num 0) (js_div ERASER_RADIUS (scale \<lparr>viewX = Num 0, viewY = Num 0, scale = Num 1\<rparr>)))
   \<and> strokeWidth (base thinCircle) = Some (Num 0)
   \<and> performErase \<lparr>viewX = Num 0, viewY = Num 0, scale = Num 1\<rparr> (\<lambda>n. ''p'') ''#000000'' (Num 2)
        \<lparr>px = Num 21, py = Num 0\<rparr> [thinCircle] = Some (Inr [])"
proof -
  have r: "isElementRoughlyIntersecting thinCircle \<lparr>px = Num 21, py = Num 0\<rparr> (Num 20)"
    by (simp add: thinCircle_def isElementRoughlyIntersecting_def updateBounds_def
      initialBounds_def strokeWidthOr_def originBase_def js_or_def js_truthy_def js_gt_def
      js_ge_def Let_def)
  have "performErase \<lparr>viewX = Num 0, viewY = Num 0, scale = Num 1\<rparr> (\<lambda>n. ''p'') ''#000000'' (Num 2)
        \<lparr>px = Num 21, py = Num 0\<rparr> [thinCircle] = Some (Inr [])"
    using r thinCircle_points
    by (simp add: performErase_def ERASER_RADIUS_def js_div_Num num_of_def distance_def
        js_sub_def js_gt_def Let_def)
  moreover have "\<not> isPointInBounds \<lparr>px = Num 21, py = Num 0\<rparr> (getElementBounds thinCircle)
        (js_add (Num 0) (js_div ERASER_RADIUS (scale \<lparr>viewX = Num 0, viewY = Num 0, scale = Num 1\<rparr>)))"
    by (simp add: thinCircle_def originBase_def isPointInBounds_def ERASER_RADIUS_def js_div_Num
        num_of_def js_ge_def)
  moreover have "\<not> isPointInBounds \<lparr>px = Num 21, py = Num 0\<rparr> (roughBounds thinCircle)
        (js_add (Num 0) (js_div ERASER_RADIUS (scale \<lparr>viewX = Num 0, viewY = Num 0, scale = Num 1\<rparr>)))"
    by (simp add: thinCircle_def originBase_def isPointInBounds_def ERASER_RADIUS_def js_div_Num
        num_of_def js_ge_def updateBounds_def initialBounds_def js_gt_def Let_def)
  ultimately show ?thesis by (simp add: thinCircle_def)
qed

end
